theory Spec2Isabelle
  imports Main
begin

section \<open>JavaScript values and the built-in operations that api.js relies on\<close>

text \<open>
  The module \<^verbatim>\<open>src/frontend/js/app/api.js\<close> handles request bodies, decoded JSON
  responses and option bags. They are modelled by one datatype of JavaScript values.
  A \<open>string\<close> stands for a JavaScript string whose code units are all below 256, one
  \<open>char\<close> per code unit. Numbers are the integers. An object is the list of its own
  enumerable properties in enumeration order; a key that occurs twice is read at its
  first occurrence. Plain data objects are assumed not to shadow the conversion methods
  \<^verbatim>\<open>toString\<close> and \<^verbatim>\<open>valueOf\<close> of their prototype.
\<close>

datatype jsval =
    JUndefined
  | JNull
  | JBool bool
  | JNum int
  | JStr string
  | JArr "jsval list"
  | JObj "(string \<times> jsval) list"
  | JFormData "(string \<times> string) list"

datatype js_exn =
    TypeError
  | Error string
  | ApiError (message: string) (debug: jsval) (code: jsval)

text \<open>
  How a callback that settles a promise can end: it calls \<^verbatim>\<open>resolve\<close>, it calls
  \<^verbatim>\<open>reject\<close>, it throws before doing either (the promise created by
  \<^verbatim>\<open>new Promise\<close> then stays pending), or it does nothing on this event.
\<close>

datatype ('a, 'e) outcome = Resolved 'a | Rejected 'e | Uncaught js_exn | Unsettled

definition js_typeof :: "jsval \<Rightarrow> string" where
  "js_typeof v =
     (case v of
        JUndefined \<Rightarrow> ''undefined''
      | JNull \<Rightarrow> ''object''
      | JBool _ \<Rightarrow> ''boolean''
      | JNum _ \<Rightarrow> ''number''
      | JStr _ \<Rightarrow> ''string''
      | JArr _ \<Rightarrow> ''object''
      | JObj _ \<Rightarrow> ''object''
      | JFormData _ \<Rightarrow> ''object'')"

definition js_truthy :: "jsval \<Rightarrow> bool" where
  "js_truthy v =
     (case v of
        JUndefined \<Rightarrow> False
      | JNull \<Rightarrow> False
      | JBool b \<Rightarrow> b
      | JNum n \<Rightarrow> n \<noteq> 0
      | JStr s \<Rightarrow> s \<noteq> []
      | _ \<Rightarrow> True)"

text \<open>
  Reading a property \<^verbatim>\<open>v.k\<close>. On \<^verbatim>\<open>undefined\<close> and \<^verbatim>\<open>null\<close> the read throws a
  TypeError. The names this module reads (\<^verbatim>\<open>error\<close>, \<^verbatim>\<open>message\<close>, \<^verbatim>\<open>code\<close>,
  \<^verbatim>\<open>token\<close>, \<^verbatim>\<open>id\<close>) are not defined on any built-in prototype, so on every other
  value the read yields the own property or \<^verbatim>\<open>undefined\<close>.
\<close>

definition js_get :: "jsval \<Rightarrow> string \<Rightarrow> js_exn + jsval" where
  "js_get v k =
     (case v of
        JUndefined \<Rightarrow> Inl TypeError
      | JNull \<Rightarrow> Inl TypeError
      | JObj kvs \<Rightarrow> Inr (case map_of kvs k of None \<Rightarrow> JUndefined | Some x \<Rightarrow> x)
      | _ \<Rightarrow> Inr JUndefined)"

text \<open>\<^verbatim>\<open>delete o.k\<close> on the property list of an ordinary object.\<close>

definition js_delete :: "string \<Rightarrow> (string \<times> jsval) list \<Rightarrow> (string \<times> jsval) list" where
  "js_delete k kvs = filter (\<lambda>kv. fst kv \<noteq> k) kvs"

subsection \<open>Numbers to strings\<close>

definition digit_char :: "nat \<Rightarrow> char" where
  "digit_char d = ''0123456789abcdef'' ! (d mod 16)"

function show_nat :: "nat \<Rightarrow> string" where
  "show_nat n = (if n < 10 then [digit_char n] else show_nat (n div 10) @ [digit_char (n mod 10)])"
  by pat_completeness auto
termination
  by (relation "measure id") auto

declare show_nat.simps [simp del]

definition show_int :: "int \<Rightarrow> string" where
  "show_int i = (if i < 0 then CHR ''-'' # show_nat (nat (- i)) else show_nat (nat i))"

definition hex2 :: "nat \<Rightarrow> string" where
  "hex2 n = [digit_char ((n div 16) mod 16), digit_char (n mod 16)]"

definition upper_hex2 :: "nat \<Rightarrow> string" where
  "upper_hex2 n = [''0123456789ABCDEF'' ! ((n div 16) mod 16), ''0123456789ABCDEF'' ! (n mod 16)]"

fun join :: "string \<Rightarrow> string list \<Rightarrow> string" where
  "join sep [] = []"
| "join sep [x] = x"
| "join sep (x # y # ys) = x @ sep @ join sep (y # ys)"

subsection \<open>ToString\<close>

text \<open>
  The abstract operation ToString, as string concatenation and the \<^verbatim>\<open>Error\<close>
  constructor apply it. An array is converted by \<^verbatim>\<open>join\<close>, which renders
  \<^verbatim>\<open>undefined\<close> and \<^verbatim>\<open>null\<close> elements as the empty string.
\<close>

fun js_ToString :: "jsval \<Rightarrow> string"
  and js_elems :: "jsval list \<Rightarrow> string list" where
  "js_ToString JUndefined = ''undefined''"
| "js_ToString JNull = ''null''"
| "js_ToString (JBool b) = (if b then ''true'' else ''false'')"
| "js_ToString (JNum n) = show_int n"
| "js_ToString (JStr s) = s"
| "js_ToString (JArr xs) = join '','' (js_elems xs)"
| "js_ToString (JObj kvs) = ''[object Object]''"
| "js_ToString (JFormData fd) = ''[object FormData]''"
| "js_elems [] = []"
| "js_elems (x # xs) =
     (if x = JUndefined \<or> x = JNull then [] else js_ToString x) # js_elems xs"

subsection \<open>JSON.stringify\<close>

definition json_escape :: "char \<Rightarrow> string" where
  "json_escape c =
     (let n = (of_char c :: nat) in
      if n = 34 then [CHR 0x5C, CHR 0x22]
      else if n = 92 then [CHR 0x5C, CHR 0x5C]
      else if n = 8 then [CHR 0x5C, CHR ''b'']
      else if n = 9 then [CHR 0x5C, CHR ''t'']
      else if n = 10 then [CHR 0x5C, CHR ''n'']
      else if n = 12 then [CHR 0x5C, CHR ''f'']
      else if n = 13 then [CHR 0x5C, CHR ''r'']
      else if n < 32 then [CHR 0x5C, CHR ''u'', CHR ''0'', CHR ''0''] @ hex2 n
      else [c])"

definition json_quote :: "string \<Rightarrow> string" where
  "json_quote s = [CHR 0x22] @ concat (map json_escape s) @ [CHR 0x22]"

text \<open>
  \<open>json_ser v\<close> is \<open>None\<close> where \<^verbatim>\<open>JSON.stringify\<close> yields \<^verbatim>\<open>undefined\<close>: such a
  property is left out of an object and such an array element is written \<^verbatim>\<open>null\<close>.
  A \<^verbatim>\<open>FormData\<close> has no own enumerable properties and serialises as \<^verbatim>\<open>{}\<close>.
  Values hold no functions, so no object has a \<^verbatim>\<open>toJSON\<close> method.
\<close>

fun json_ser :: "jsval \<Rightarrow> string option"
  and json_elems :: "jsval list \<Rightarrow> string list"
  and json_props :: "(string \<times> jsval) list \<Rightarrow> string list" where
  "json_ser JUndefined = None"
| "json_ser JNull = Some ''null''"
| "json_ser (JBool b) = Some (if b then ''true'' else ''false'')"
| "json_ser (JNum n) = Some (show_int n)"
| "json_ser (JStr s) = Some (json_quote s)"
| "json_ser (JArr xs) = Some (''['' @ join '','' (json_elems xs) @ '']'')"
| "json_ser (JObj kvs) = Some (''{'' @ join '','' (json_props kvs) @ ''}'')"
| "json_ser (JFormData fd) = Some ''{}''"
| "json_elems [] = []"
| "json_elems (x # xs) = (case json_ser x of None \<Rightarrow> ''null'' | Some s \<Rightarrow> s) # json_elems xs"
| "json_props [] = []"
| "json_props (kv # kvs) =
     (case json_ser (snd kv) of
        None \<Rightarrow> json_props kvs
      | Some s \<Rightarrow> (json_quote (fst kv) @ '':'' @ s) # json_props kvs)"

definition JSON_stringify :: "jsval \<Rightarrow> jsval" where
  "JSON_stringify v = (case json_ser v of None \<Rightarrow> JUndefined | Some s \<Rightarrow> JStr s)"

subsection \<open>parseInt with radix 10\<close>

text \<open>
  \<^verbatim>\<open>parseInt(x, 10)\<close>: leading white space is skipped, one sign is read, and the
  longest run of decimal digits that follows is the value; no digit gives \<^verbatim>\<open>NaN\<close>.
  The result is the mathematical integer (the Number that JavaScript returns is the
  double nearest to it, which is the integer itself up to \<open>2 ^ 53\<close>), and \<open>-0\<close> is \<open>0\<close>.
  A \<^verbatim>\<open>null\<close> argument is converted to the string \<^verbatim>\<open>null\<close> first.
\<close>

datatype jsnum = NaN | Integer int

definition js_ws :: "char \<Rightarrow> bool" where
  "js_ws c = ((of_char c :: nat) \<in> {9, 10, 11, 12, 13, 32, 160})"

definition is_digit :: "char \<Rightarrow> bool" where
  "is_digit c = (48 \<le> (of_char c :: nat) \<and> (of_char c :: nat) \<le> 57)"

definition digits_val :: "string \<Rightarrow> nat" where
  "digits_val ds = foldl (\<lambda>a c. 10 * a + ((of_char c :: nat) - 48)) 0 ds"

definition parseInt10 :: "string option \<Rightarrow> jsnum" where
  "parseInt10 x =
     (let s = dropWhile js_ws (case x of None \<Rightarrow> ''null'' | Some str \<Rightarrow> str);
          neg = (s \<noteq> [] \<and> hd s = CHR ''-'');
          r = (if s \<noteq> [] \<and> (hd s = CHR ''-'' \<or> hd s = CHR ''+'') then tl s else s);
          ds = takeWhile is_digit r
      in if ds = [] then NaN
         else Integer (if neg then - int (digits_val ds) else int (digits_val ds)))"

subsection \<open>encodeURIComponent\<close>

text \<open>
  Letters, digits and \<^verbatim>\<open>- _ . ! ~ * ' ( )\<close> are kept; every other code unit is
  written as the percent-encoded bytes of its UTF-8 form (one byte below 128, two bytes
  from 128 to 255).
\<close>

definition uri_unreserved :: "char \<Rightarrow> bool" where
  "uri_unreserved c =
     (let n = (of_char c :: nat) in
      (65 \<le> n \<and> n \<le> 90) \<or> (97 \<le> n \<and> n \<le> 122) \<or> (48 \<le> n \<and> n \<le> 57)
      \<or> n \<in> {45, 95, 46, 33, 126, 42, 39, 40, 41})"

definition uri_encode_char :: "char \<Rightarrow> string" where
  "uri_encode_char c =
     (let n = (of_char c :: nat) in
      if uri_unreserved c then [c]
      else if n < 128 then CHR ''%'' # upper_hex2 n
      else CHR ''%'' # upper_hex2 (192 + n div 64) @ CHR ''%'' # upper_hex2 (128 + n mod 64))"

definition encodeURIComponent :: "jsval \<Rightarrow> string" where
  "encodeURIComponent v = concat (map uri_encode_char (js_ToString v))"

section \<open>Collaborators\<close>

text \<open>
  Modelled from the spec: the token store (the module \<^verbatim>\<open>./tokens\<close>, required at the
  top of api.js, is not among the sources). The spec lists its operations: get the
  current token (or null), set the current token, add a token, clear all tokens. The
  store is a parameter of every function below: a state of any type \<open>'s\<close> with these
  four operations. A token carries its bearer value in the field \<^verbatim>\<open>t\<close>.
\<close>

record token =
  token_t :: string

record 's token_store =
  getTopToken :: "'s \<Rightarrow> token option"
  addToken :: "jsval \<Rightarrow> 's \<Rightarrow> 's"
  setCurrentToken :: "jsval \<Rightarrow> 's \<Rightarrow> 's"
  clearTokens :: "'s \<Rightarrow> 's"

text \<open>
  The jqXHR object that jQuery hands to the \<^verbatim>\<open>success\<close> and \<^verbatim>\<open>error\<close> callbacks.
  \<^verbatim>\<open>getResponseHeader\<close> yields \<open>None\<close> for \<^verbatim>\<open>null\<close>; \<^verbatim>\<open>responseText\<close> and
  \<^verbatim>\<open>responseJSON\<close> are \<^verbatim>\<open>undefined\<close> when jQuery did not set them.
\<close>

record jqXHR =
  getResponseHeader :: "string \<Rightarrow> string option"
  responseText :: jsval
  responseJSON :: jsval

text \<open>The settings object passed to \<^verbatim>\<open>$.ajax\<close>, with the header set in \<^verbatim>\<open>beforeSend\<close>.\<close>

record ajax_settings =
  ajax_url :: string
  ajax_data :: jsval
  ajax_type :: string
  ajax_dataType :: string
  ajax_contentType :: string
  ajax_processData :: bool
  ajax_crossDomain :: bool
  ajax_timeout :: nat
  ajax_withCredentials :: bool
  ajax_Authorization :: string

text \<open>What jQuery reports back: the arguments of the one callback it invokes.\<close>

datatype ajax_reply =
    AjaxSuccess jsval string jqXHR
  | AjaxError jqXHR string jsval

section \<open>fetch\<close>

text \<open>The \<^verbatim>\<open>options\<close> argument; \<open>None\<close> is a key that the caller left out.\<close>

record fetch_options =
  opt_contentType :: "string option"
  opt_processData :: "bool option"
  opt_timeout :: "nat option"

definition no_options :: fetch_options where
  "no_options = \<lparr>opt_contentType = None, opt_processData = None, opt_timeout = None\<rparr>"

text \<open>\<^verbatim>\<open>contentType.match(/json/im)\<close>: the letters j, s, o, n in a row, in either case.\<close>

fun match_json :: "string \<Rightarrow> bool" where
  "match_json (a # b # c # d # rest) =
     ((a \<in> {CHR ''j'', CHR ''J''} \<and> b \<in> {CHR ''s'', CHR ''S''}
       \<and> c \<in> {CHR ''o'', CHR ''O''} \<and> d \<in> {CHR ''n'', CHR ''N''})
      \<or> match_json (b # c # d # rest))"
| "match_json _ = False"

record pagination =
  pg_total :: jsnum
  pg_offset :: jsnum
  pg_limit :: jsnum

text \<open>
  The argument of \<^verbatim>\<open>resolve\<close> in fetch: the object \<^verbatim>\<open>{data, pagination}\<close> built in
  the success callback, or the jqXHR object itself. What a \<^verbatim>\<open>then\<close> callback receives
  from a promise resolved with the jqXHR object is decided by the promise machinery and
  by jQuery, outside this module; the callbacks of login and refresh below therefore
  take the value they receive as an argument.
\<close>

datatype fetch_result =
    Paginated jsval pagination
  | RawResponse jqXHR

definition new_ApiError :: "jsval \<Rightarrow> jsval \<Rightarrow> jsval \<Rightarrow> js_exn" where
  "new_ApiError msg dbg cd =
     ApiError (if msg = JUndefined then [] else js_ToString msg) dbg cd"

definition fetch_request ::
  "'s token_store \<Rightarrow> 's \<Rightarrow> string \<Rightarrow> string \<Rightarrow> jsval \<Rightarrow> fetch_options \<Rightarrow> ajax_settings" where
  "fetch_request T s verb path body options =
     (let api_url = ''/api/'';
          url = api_url @ path;
          tok = getTopToken T s;
          body1 = (if (case opt_contentType options of None \<Rightarrow> True | Some ct \<Rightarrow> match_json ct)
                      \<and> js_typeof body = ''object''
                   then JSON_stringify body else body)
      in \<lparr>ajax_url = url,
          ajax_data = (if js_typeof body1 = ''object'' then JSON_stringify body1 else body1),
          ajax_type = verb,
          ajax_dataType = ''json'',
          ajax_contentType =
            (case opt_contentType options of
               None \<Rightarrow> ''application/json; charset=UTF-8''
             | Some ct \<Rightarrow> if ct \<noteq> [] then ct else ''application/json; charset=UTF-8''),
          ajax_processData =
            (case opt_processData options of
               None \<Rightarrow> True
             | Some b \<Rightarrow> if b then b else True),
          ajax_crossDomain = True,
          ajax_timeout =
            (case opt_timeout options of
               None \<Rightarrow> 15000
             | Some n \<Rightarrow> if n \<noteq> 0 then n else 15000),
          ajax_withCredentials = True,
          ajax_Authorization =
            ''Bearer '' @ (case tok of Some tk \<Rightarrow> token_t tk | None \<Rightarrow> js_ToString JNull)\<rparr>)"

definition fetch_success :: "jsval \<Rightarrow> string \<Rightarrow> jqXHR \<Rightarrow> (fetch_result, js_exn) outcome" where
  "fetch_success body textStatus response =
     (let total = getResponseHeader response ''X-Dataset-Total'' in
      if total \<noteq> None
      then Resolved (Paginated body
             \<lparr>pg_total = parseInt10 total,
              pg_offset = parseInt10 (getResponseHeader response ''X-Dataset-Offset''),
              pg_limit = parseInt10 (getResponseHeader response ''X-Dataset-Limit'')\<rparr>)
      else Resolved (RawResponse response))"

definition fetch_error :: "jqXHR \<Rightarrow> string \<Rightarrow> jsval \<Rightarrow> (fetch_result, js_exn) outcome" where
  "fetch_error xhr status error_thrown =
     (if responseJSON xhr \<noteq> JUndefined then
        (case js_get (responseJSON xhr) ''error'' of
           Inl e \<Rightarrow> Uncaught e
         | Inr err \<Rightarrow>
             if err \<noteq> JUndefined then
               (case js_get err ''message'' of
                  Inl e \<Rightarrow> Uncaught e
                | Inr msg \<Rightarrow>
                    if msg \<noteq> JUndefined then
                      (case js_get err ''code'' of
                         Inl e \<Rightarrow> Uncaught e
                       | Inr cd \<Rightarrow>
                           Rejected (new_ApiError msg (responseText xhr)
                             (if js_truthy cd then cd else JNum 500)))
                    else Rejected (new_ApiError error_thrown (responseText xhr) (JNum 400)))
             else Rejected (new_ApiError error_thrown (responseText xhr) (JNum 400)))
      else Rejected (new_ApiError error_thrown (responseText xhr) (JNum 400)))"

text \<open>
  One call of fetch: the request handed to \<^verbatim>\<open>$.ajax\<close>, and how the promise is settled
  by the callback that jQuery invokes.
\<close>

definition fetch ::
  "'s token_store \<Rightarrow> 's \<Rightarrow> string \<Rightarrow> string \<Rightarrow> jsval \<Rightarrow> fetch_options \<Rightarrow> ajax_reply
     \<Rightarrow> ajax_settings \<times> (fetch_result, js_exn) outcome" where
  "fetch T s verb path body options reply =
     (fetch_request T s verb path body options,
      case reply of
        AjaxSuccess d textStatus response \<Rightarrow> fetch_success d textStatus response
      | AjaxError xhr status error_thrown \<Rightarrow> fetch_error xhr status error_thrown)"

section \<open>Query strings, uploads\<close>

definition makeExpansionString :: "jsval list \<Rightarrow> string" where
  "makeExpansionString expand = join '','' (map encodeURIComponent expand)"

text \<open>
  \<open>expand\<close> is \<open>None\<close> for \<^verbatim>\<open>undefined\<close> and \<^verbatim>\<open>null\<close>, otherwise the array;
  \<open>query\<close> is any value, used only when it is a string.
\<close>

definition getAllObjects ::
  "'s token_store \<Rightarrow> 's \<Rightarrow> string \<Rightarrow> jsval list option \<Rightarrow> jsval \<Rightarrow> ajax_settings" where
  "getAllObjects T s path expand query =
     (let params1 = (case expand of
                       None \<Rightarrow> []
                     | Some xs \<Rightarrow> if xs \<noteq> [] then [''expand='' @ makeExpansionString xs] else []);
          params = (case query of
                      JStr q \<Rightarrow> params1 @ [''query='' @ q]
                    | _ \<Rightarrow> params1)
      in fetch_request T s ''get''
           (path @ (if params \<noteq> [] then ''?'' @ join ''&'' params else [])) JUndefined no_options)"

definition upload :: "'s token_store \<Rightarrow> 's \<Rightarrow> string \<Rightarrow> jsval \<Rightarrow> ajax_settings" where
  "upload T s path form_data =
     fetch_request T s ''post'' path form_data
       \<lparr>opt_contentType = Some ''multipart/form-data'',
        opt_processData = Some False,
        opt_timeout = None\<rparr>"

text \<open>The request that FileUpload makes on its own XMLHttpRequest.\<close>

record xhr_request =
  xhr_method :: string
  xhr_url :: string
  xhr_overrideMimeType :: string
  xhr_Authorization :: string
  xhr_body :: jsval

text \<open>The XMLHttpRequest as the \<^verbatim>\<open>onreadystatechange\<close> handler finds it.\<close>

record XMLHttpRequest =
  xhr_readyState :: nat
  xhr_status :: nat
  xhr_responseText :: string
  xhr_getResponseHeader :: "string \<Rightarrow> string option"

definition XMLHttpRequest_DONE :: nat where
  "XMLHttpRequest_DONE = 4"

definition FileUpload_request :: "'s token_store \<Rightarrow> 's \<Rightarrow> string \<Rightarrow> jsval \<Rightarrow> xhr_request" where
  "FileUpload_request T s path fd =
     (let tok = getTopToken T s in
      \<lparr>xhr_method = ''POST'',
       xhr_url = ''/api/'' @ path,
       xhr_overrideMimeType = ''text/plain'',
       xhr_Authorization =
         ''Bearer '' @ (case tok of Some tk \<Rightarrow> token_t tk | None \<Rightarrow> js_ToString JNull),
       xhr_body = fd\<rparr>)"

definition FileUpload_onreadystatechange :: "XMLHttpRequest \<Rightarrow> (string, js_exn) outcome" where
  "FileUpload_onreadystatechange xhr =
     (if xhr_readyState xhr = XMLHttpRequest_DONE then
        if xhr_status xhr \<noteq> 200 \<and> xhr_status xhr \<noteq> 201
        then Rejected (Error (''Upload failed: '' @ show_nat (xhr_status xhr)))
        else Resolved (xhr_responseText xhr)
      else Unsettled)"

definition FileUpload ::
  "'s token_store \<Rightarrow> 's \<Rightarrow> string \<Rightarrow> jsval \<Rightarrow> XMLHttpRequest
     \<Rightarrow> xhr_request \<times> (string, js_exn) outcome" where
  "FileUpload T s path fd xhr =
     (FileUpload_request T s path fd, FileUpload_onreadystatechange xhr)"

section \<open>Tokens\<close>

text \<open>
  \<open>settled\<close> is how the promise returned by fetch settles as the \<^verbatim>\<open>then\<close> callback
  sees it: the value it is fulfilled with, or the rejection, which \<^verbatim>\<open>then\<close> passes
  on. \<open>s\<close> is the token store when the request is made and \<open>s'\<close> the store when the
  callback runs. The result is the request, the token store afterwards, and how the
  promise that login returns settles. An exception thrown inside the callback rejects
  that promise.
\<close>

definition login_then ::
  "'s token_store \<Rightarrow> bool \<Rightarrow> jsval \<Rightarrow> 's \<Rightarrow> 's \<times> (jsval, js_exn) outcome" where
  "login_then T wipe response s' =
     (case js_get response ''token'' of
        Inl e \<Rightarrow> (s', Rejected e)
      | Inr tk \<Rightarrow>
          if js_truthy tk then
            (let s1 = (if wipe then clearTokens T s' else s');
                 s2 = addToken T tk s1
             in (s2, Resolved tk))
          else (clearTokens T s', Rejected (Error ''No token returned'')))"

definition login ::
  "'s token_store \<Rightarrow> 's \<Rightarrow> string \<Rightarrow> string \<Rightarrow> bool \<Rightarrow> (jsval, js_exn) outcome \<Rightarrow> 's
     \<Rightarrow> ajax_settings \<times> 's \<times> (jsval, js_exn) outcome" where
  "login T s identity secret wipe settled s' =
     (fetch_request T s ''post'' ''tokens''
        (JObj [(''identity'', JStr identity), (''secret'', JStr secret)]) no_options,
      case settled of
        Resolved response \<Rightarrow> login_then T wipe response s'
      | Rejected e \<Rightarrow> (s', Rejected e)
      | Uncaught e \<Rightarrow> (s', Unsettled)
      | Unsettled \<Rightarrow> (s', Unsettled))"

definition refresh_then ::
  "'s token_store \<Rightarrow> jsval \<Rightarrow> 's \<Rightarrow> 's \<times> (jsval, js_exn) outcome" where
  "refresh_then T response s' =
     (case js_get response ''token'' of
        Inl e \<Rightarrow> (s', Rejected e)
      | Inr tk \<Rightarrow>
          if js_truthy tk then (setCurrentToken T tk s', Resolved tk)
          else (clearTokens T s', Rejected (Error ''No token returned'')))"

definition refresh ::
  "'s token_store \<Rightarrow> 's \<Rightarrow> (jsval, js_exn) outcome \<Rightarrow> 's
     \<Rightarrow> ajax_settings \<times> 's \<times> (jsval, js_exn) outcome" where
  "refresh T s settled s' =
     (fetch_request T s ''get'' ''tokens'' JUndefined no_options,
      case settled of
        Resolved response \<Rightarrow> refresh_then T response s'
      | Rejected e \<Rightarrow> (s', Rejected e)
      | Uncaught e \<Rightarrow> (s', Unsettled)
      | Unsettled \<Rightarrow> (s', Unsettled))"

section \<open>Resource groups\<close>

text \<open>
  \<^verbatim>\<open>update(data)\<close> receives a reference to the caller's object and deletes a
  property of it, so objects live in a store: \<open>h a\<close> is the property list of the object
  at address \<open>a\<close>. Each update returns the store afterwards and the request.
\<close>

type_synonym heap = "nat \<Rightarrow> (string \<times> jsval) list"

definition Users_getAll ::
  "'s token_store \<Rightarrow> 's \<Rightarrow> jsval list option \<Rightarrow> jsval \<Rightarrow> ajax_settings" where
  "Users_getAll T s expand query = getAllObjects T s ''users'' expand query"

definition Users_update :: "'s token_store \<Rightarrow> 's \<Rightarrow> heap \<Rightarrow> nat \<Rightarrow> heap \<times> ajax_settings" where
  "Users_update T s h a =
     (let ident = (case map_of (h a) ''id'' of None \<Rightarrow> JUndefined | Some x \<Rightarrow> x);
          h' = h(a := js_delete ''id'' (h a))
      in (h', fetch_request T s ''put'' (''users/'' @ js_ToString ident) (JObj (h' a)) no_options))"

definition ProxyHosts_getAll ::
  "'s token_store \<Rightarrow> 's \<Rightarrow> jsval list option \<Rightarrow> jsval \<Rightarrow> ajax_settings" where
  "ProxyHosts_getAll T s expand query = getAllObjects T s ''nginx/proxy-hosts'' expand query"

definition ProxyHosts_update :: "'s token_store \<Rightarrow> 's \<Rightarrow> heap \<Rightarrow> nat \<Rightarrow> heap \<times> ajax_settings" where
  "ProxyHosts_update T s h a =
     (let ident = (case map_of (h a) ''id'' of None \<Rightarrow> JUndefined | Some x \<Rightarrow> x);
          h' = h(a := js_delete ''id'' (h a))
      in (h', fetch_request T s ''put'' (''nginx/proxy-hosts/'' @ js_ToString ident)
                (JObj (h' a)) no_options))"

definition ProxyHosts_setCerts ::
  "'s token_store \<Rightarrow> 's \<Rightarrow> jsval \<Rightarrow> jsval \<Rightarrow> XMLHttpRequest
     \<Rightarrow> xhr_request \<times> (string, js_exn) outcome" where
  "ProxyHosts_setCerts T s ident form_data xhr =
     FileUpload T s (''nginx/proxy-hosts/'' @ js_ToString ident @ ''/certificates'') form_data xhr"

definition RedirectionHosts_getAll ::
  "'s token_store \<Rightarrow> 's \<Rightarrow> jsval list option \<Rightarrow> jsval \<Rightarrow> ajax_settings" where
  "RedirectionHosts_getAll T s expand query =
     getAllObjects T s ''nginx/redirection-hosts'' expand query"

definition RedirectionHosts_update ::
  "'s token_store \<Rightarrow> 's \<Rightarrow> heap \<Rightarrow> nat \<Rightarrow> heap \<times> ajax_settings" where
  "RedirectionHosts_update T s h a =
     (let ident = (case map_of (h a) ''id'' of None \<Rightarrow> JUndefined | Some x \<Rightarrow> x);
          h' = h(a := js_delete ''id'' (h a))
      in (h', fetch_request T s ''put'' (''nginx/redirection-hosts/'' @ js_ToString ident)
                (JObj (h' a)) no_options))"

definition RedirectionHosts_setCerts ::
  "'s token_store \<Rightarrow> 's \<Rightarrow> jsval \<Rightarrow> jsval \<Rightarrow> ajax_settings" where
  "RedirectionHosts_setCerts T s ident form_data =
     upload T s (''nginx/redirection-hosts/'' @ js_ToString ident @ ''/certificates'') form_data"

definition Streams_getAll ::
  "'s token_store \<Rightarrow> 's \<Rightarrow> jsval list option \<Rightarrow> jsval \<Rightarrow> ajax_settings" where
  "Streams_getAll T s expand query = getAllObjects T s ''nginx/streams'' expand query"

definition Streams_update :: "'s token_store \<Rightarrow> 's \<Rightarrow> heap \<Rightarrow> nat \<Rightarrow> heap \<times> ajax_settings" where
  "Streams_update T s h a =
     (let ident = (case map_of (h a) ''id'' of None \<Rightarrow> JUndefined | Some x \<Rightarrow> x);
          h' = h(a := js_delete ''id'' (h a))
      in (h', fetch_request T s ''put'' (''nginx/streams/'' @ js_ToString ident)
                (JObj (h' a)) no_options))"

definition DeadHosts_getAll ::
  "'s token_store \<Rightarrow> 's \<Rightarrow> jsval list option \<Rightarrow> jsval \<Rightarrow> ajax_settings" where
  "DeadHosts_getAll T s expand query = getAllObjects T s ''nginx/dead-hosts'' expand query"

definition DeadHosts_update :: "'s token_store \<Rightarrow> 's \<Rightarrow> heap \<Rightarrow> nat \<Rightarrow> heap \<times> ajax_settings" where
  "DeadHosts_update T s h a =
     (let ident = (case map_of (h a) ''id'' of None \<Rightarrow> JUndefined | Some x \<Rightarrow> x);
          h' = h(a := js_delete ''id'' (h a))
      in (h', fetch_request T s ''put'' (''nginx/dead-hosts/'' @ js_ToString ident)
                (JObj (h' a)) no_options))"

definition DeadHosts_setCerts ::
  "'s token_store \<Rightarrow> 's \<Rightarrow> jsval \<Rightarrow> jsval \<Rightarrow> ajax_settings" where
  "DeadHosts_setCerts T s ident form_data =
     upload T s (''nginx/dead-hosts/'' @ js_ToString ident @ ''/certificates'') form_data"

definition AccessLists_getAll ::
  "'s token_store \<Rightarrow> 's \<Rightarrow> jsval list option \<Rightarrow> jsval \<Rightarrow> ajax_settings" where
  "AccessLists_getAll T s expand query = getAllObjects T s ''access-lists'' expand query"

definition AccessLists_update :: "'s token_store \<Rightarrow> 's \<Rightarrow> heap \<Rightarrow> nat \<Rightarrow> heap \<times> ajax_settings" where
  "AccessLists_update T s h a =
     (let ident = (case map_of (h a) ''id'' of None \<Rightarrow> JUndefined | Some x \<Rightarrow> x);
          h' = h(a := js_delete ''id'' (h a))
      in (h', fetch_request T s ''put'' (''access-lists/'' @ js_ToString ident)
                (JObj (h' a)) no_options))"

definition AuditLog_getAll ::
  "'s token_store \<Rightarrow> 's \<Rightarrow> jsval list option \<Rightarrow> jsval \<Rightarrow> ajax_settings" where
  "AuditLog_getAll T s expand query = getAllObjects T s ''audit-log'' expand query"

text \<open>The update and getAll operations of all groups, each with its path.\<close>

definition resource_updates ::
  "(string \<times> ('s token_store \<Rightarrow> 's \<Rightarrow> heap \<Rightarrow> nat \<Rightarrow> heap \<times> ajax_settings)) list" where
  "resource_updates =
     [(''users/'', Users_update),
      (''nginx/proxy-hosts/'', ProxyHosts_update),
      (''nginx/redirection-hosts/'', RedirectionHosts_update),
      (''nginx/streams/'', Streams_update),
      (''nginx/dead-hosts/'', DeadHosts_update),
      (''access-lists/'', AccessLists_update)]"

definition resource_getAlls ::
  "(string \<times> ('s token_store \<Rightarrow> 's \<Rightarrow> jsval list option \<Rightarrow> jsval \<Rightarrow> ajax_settings)) list" where
  "resource_getAlls =
     [(''users'', Users_getAll),
      (''nginx/proxy-hosts'', ProxyHosts_getAll),
      (''nginx/redirection-hosts'', RedirectionHosts_getAll),
      (''nginx/streams'', Streams_getAll),
      (''nginx/dead-hosts'', DeadHosts_getAll),
      (''access-lists'', AccessLists_getAll),
      (''audit-log'', AuditLog_getAll)]"

section \<open>Inputs for running the functions\<close>

text \<open>
  Modelled from the spec: a token store that is a stack of tokens with the current
  token on top (\<^verbatim>\<open>./tokens\<close> is not among the sources). It serves to run the
  functions above on concrete inputs.
\<close>

definition stack_store :: "token list token_store" where
  "stack_store =
     \<lparr>getTopToken = (\<lambda>s. case s of [] \<Rightarrow> None | x # _ \<Rightarrow> Some x),
      addToken = (\<lambda>v s. \<lparr>token_t = js_ToString v\<rparr> # s),
      setCurrentToken = (\<lambda>v s. \<lparr>token_t = js_ToString v\<rparr> # tl s),
      clearTokens = (\<lambda>s. [])\<rparr>"


definition plain_response :: jqXHR where
  "plain_response =
     \<lparr>getResponseHeader = map_of [], responseText = JStr ''{}'', responseJSON = JObj []\<rparr>"

text \<open>Error responses: a JSON error envelope, the same with code 0, and no body at all.\<close>

definition envelope_error :: jsval where
  "envelope_error = JObj [(''message'', JStr ''Bad input''), (''code'', JNum 422)]"

definition envelope_xhr :: jqXHR where
  "envelope_xhr =
     \<lparr>getResponseHeader = map_of [],
      responseText = JStr ''Bad input, 422'',
      responseJSON = JObj [(''error'', envelope_error)]\<rparr>"

definition zero_code_error :: jsval where
  "zero_code_error = JObj [(''message'', JStr ''Bad input''), (''code'', JNum 0)]"

definition zero_code_xhr :: jqXHR where
  "zero_code_xhr =
     \<lparr>getResponseHeader = map_of [],
      responseText = JStr ''Bad input, 0'',
      responseJSON = JObj [(''error'', zero_code_error)]\<rparr>"

definition timeout_xhr :: jqXHR where
  "timeout_xhr =
     \<lparr>getResponseHeader = map_of [], responseText = JUndefined, responseJSON = JUndefined\<rparr>"

definition null_body_xhr :: jqXHR where
  "null_body_xhr =
     \<lparr>getResponseHeader = map_of [], responseText = JStr ''null'', responseJSON = JNull\<rparr>"

text \<open>A store with one object, \<^verbatim>\<open>{id: 5, name: "x"}\<close>, at address 0.\<close>

definition caller_heap :: heap where
  "caller_heap = (\<lambda>a. if a = 0 then [(''id'', JNum 5), (''name'', JStr ''x'')] else [])"

definition certificate_form :: jsval where
  "certificate_form = JFormData [(''certificate'', ''cert.pem''), (''certificate_key'', ''key.pem'')]"

definition failed_upload_xhr :: XMLHttpRequest where
  "failed_upload_xhr =
     \<lparr>xhr_readyState = 4, xhr_status = 500, xhr_responseText = ''Internal Error'',
      xhr_getResponseHeader = map_of [(''X-Dataset-Total'', ''42'')]\<rparr>"

definition created_upload_xhr :: XMLHttpRequest where
  "created_upload_xhr =
     \<lparr>xhr_readyState = 4, xhr_status = 201, xhr_responseText = ''true'',
      xhr_getResponseHeader = map_of [(''X-Dataset-Total'', ''42'')]\<rparr>"

section \<open>How a server reads a query string\<close>

text \<open>
  The spec compares query strings up to their encoding. These definitions follow the
  spec, not the sources: a query string is split at \<^verbatim>\<open>&\<close>, each part at its first
  \<^verbatim>\<open>=\<close>, and both halves are percent-decoded.
\<close>

fun split_on :: "char \<Rightarrow> string \<Rightarrow> string list" where
  "split_on c [] = [[]]"
| "split_on c (x # xs) =
     (if x = c then [] # split_on c xs
      else (case split_on c xs of [] \<Rightarrow> [[x]] | r # rs \<Rightarrow> (x # r) # rs))"

definition hex_val :: "char \<Rightarrow> nat" where
  "hex_val c =
     (let n = (of_char c :: nat) in
      if 48 \<le> n \<and> n \<le> 57 then n - 48
      else if 65 \<le> n \<and> n \<le> 70 then n - 55
      else if 97 \<le> n \<and> n \<le> 102 then n - 87
      else 0)"

fun spec_percent_decode :: "string \<Rightarrow> string" where
  "spec_percent_decode (p # a # b # rest) =
     (if p = CHR ''%'' then char_of (16 * hex_val a + hex_val b) # spec_percent_decode rest
      else p # spec_percent_decode (a # b # rest))"
| "spec_percent_decode cs = cs"

definition spec_query_param :: "string \<Rightarrow> string \<times> string" where
  "spec_query_param part =
     (spec_percent_decode (takeWhile (\<lambda>c. c \<noteq> CHR ''='') part),
      spec_percent_decode (drop 1 (dropWhile (\<lambda>c. c \<noteq> CHR ''='') part)))"

definition spec_query_params :: "string \<Rightarrow> (string \<times> string) list" where
  "spec_query_params qs = map spec_query_param (split_on CHR ''&'' qs)"

section \<open>Decimal numerals are parsed back\<close>










section \<open>The request that fetch builds\<close>

lemma typeof_stringify: "js_typeof v = ''object'' \<Longrightarrow> js_typeof (JSON_stringify v) = ''string''"
  by (cases v) (simp_all add: js_typeof_def JSON_stringify_def)

lemma fetch_request_data:
  "ajax_data (fetch_request T s verb path body options) =
     (if js_typeof body = ''object'' then JSON_stringify body else body)"
proof (cases "js_typeof body = ''object''")
  case True
  then show ?thesis
    using typeof_stringify [OF True]
    by (simp add: fetch_request_def Let_def)
next
  case False
  then show ?thesis
    by (simp add: fetch_request_def Let_def)
qed

lemma fetch_request_url: "ajax_url (fetch_request T s verb path body options) = ''/api/'' @ path"
  by (simp add: fetch_request_def Let_def)

lemma fetch_request_type: "ajax_type (fetch_request T s verb path body options) = verb"
  by (simp add: fetch_request_def Let_def)

lemma fetch_request_processData:
  "ajax_processData (fetch_request T s verb path body options) = True"
  by (simp add: fetch_request_def Let_def split: option.split)

lemma fetch_request_Authorization:
  "ajax_Authorization (fetch_request T s verb path body options) =
     ''Bearer '' @ (case getTopToken T s of Some tk \<Rightarrow> token_t tk | None \<Rightarrow> ''null'')"
  by (simp add: fetch_request_def Let_def split: option.split)

lemma map_of_js_delete_same: "map_of (js_delete k kvs) k = None"
  by (induction kvs) (simp_all add: js_delete_def)

lemma map_of_js_delete_other: "j \<noteq> k \<Longrightarrow> map_of (js_delete k kvs) j = map_of kvs j"
  by (induction kvs) (auto simp: js_delete_def)


lemma update_cases:
  assumes "(base, upd) \<in> set resource_updates"
  shows "upd T s h a =
           (h(a := js_delete ''id'' (h a)),
            fetch_request T s ''put''
              (base @ js_ToString (case map_of (h a) ''id'' of None \<Rightarrow> JUndefined | Some x \<Rightarrow> x))
              (JObj (js_delete ''id'' (h a))) no_options)
         \<and> base \<noteq> [] \<and> last base = CHR ''/''"
  using assms
  by (auto simp: resource_updates_def Users_update_def ProxyHosts_update_def
      RedirectionHosts_update_def Streams_update_def DeadHosts_update_def
      AccessLists_update_def Let_def)

lemma getAll_cases:
  assumes "(base, getAll) \<in> set resource_getAlls"
  shows "getAll T s expand query = getAllObjects T s base expand query"
  using assms
  by (auto simp: resource_getAlls_def Users_getAll_def ProxyHosts_getAll_def
      RedirectionHosts_getAll_def Streams_getAll_def DeadHosts_getAll_def
      AccessLists_getAll_def AuditLog_getAll_def)

section \<open>Settling the promise of fetch\<close>



text \<open>
  C2 as stated fails where the error envelope carries a code that is present but falsy:
  the body \<^verbatim>\<open>{error: {message: "Bad input", code: 0}}\<close> has the field
  \<^verbatim>\<open>error.code\<close>, equal to 0, and the rejection carries the code 500.
\<close>

theorem fetch_error_code_counterexample:
  "js_get (responseJSON zero_code_xhr) ''error'' = Inr zero_code_error
   \<and> js_get zero_code_error ''message'' = Inr (JStr ''Bad input'')
   \<and> js_get zero_code_error ''code'' = Inr (JNum 0)
   \<and> snd (fetch stack_store [] ''get'' ''users'' JUndefined no_options
            (AjaxError zero_code_xhr ''error'' (JStr ''Bad Request''))) =
       Rejected (ApiError ''Bad input'' (JStr ''Bad input, 0'') (JNum 500))"
  by (simp add: fetch_def fetch_error_def zero_code_xhr_def zero_code_error_def js_get_def
      js_truthy_def new_ApiError_def)

text \<open>
  A body that is the JSON text \<^verbatim>\<open>null\<close>: the error callback throws at
  \<^verbatim>\<open>xhr.responseJSON.error\<close> and neither \<^verbatim>\<open>resolve\<close> nor \<^verbatim>\<open>reject\<close> is called.
\<close>

lemma fetch_error_null_body:
  "snd (fetch stack_store [] ''get'' ''users'' JUndefined no_options
          (AjaxError null_body_xhr ''error'' (JStr ''Bad Request''))) = Uncaught TypeError"
  by (simp add: fetch_def fetch_error_def null_body_xhr_def js_get_def)

text \<open>
  C2, amended. When jQuery invokes the error callback of fetch and the property reads
  of the callback succeed, the promise is rejected with an ApiError. If
  \<^verbatim>\<open>responseJSON\<close>, \<^verbatim>\<open>responseJSON.error\<close> and \<^verbatim>\<open>responseJSON.error.message\<close>
  are all defined, the message is that field as a string and the code is
  \<^verbatim>\<open>error.code\<close> when that value is truthy and 500 when it is absent or falsy.
  Otherwise the message is the error text that jQuery passed, as a string (empty when
  undefined), and the code is 400. In both cases \<^verbatim>\<open>debug\<close> is \<^verbatim>\<open>xhr.responseText\<close>.
\<close>

theorem fetch_error_rejects:
  "(responseJSON xhr = JUndefined
      \<or> js_get (responseJSON xhr) ''error'' = Inr JUndefined
      \<or> (js_get (responseJSON xhr) ''error'' = Inr err \<and> js_get err ''message'' = Inr JUndefined)
    \<longrightarrow> snd (fetch T s verb path body options (AjaxError xhr status error_thrown)) =
          Rejected (ApiError (if error_thrown = JUndefined then [] else js_ToString error_thrown)
            (responseText xhr) (JNum 400)))
   \<and> (js_get (responseJSON xhr) ''error'' = Inr err \<and> js_get err ''message'' = Inr msg
        \<and> msg \<noteq> JUndefined \<and> js_get err ''code'' = Inr cd
    \<longrightarrow> snd (fetch T s verb path body options (AjaxError xhr status error_thrown)) =
          Rejected (ApiError (js_ToString msg) (responseText xhr)
            (if js_truthy cd then cd else JNum 500)))"
proof (intro conjI impI)
  assume a: "responseJSON xhr = JUndefined
      \<or> js_get (responseJSON xhr) ''error'' = Inr JUndefined
      \<or> (js_get (responseJSON xhr) ''error'' = Inr err \<and> js_get err ''message'' = Inr JUndefined)"
  then show "snd (fetch T s verb path body options (AjaxError xhr status error_thrown)) =
          Rejected (ApiError (if error_thrown = JUndefined then [] else js_ToString error_thrown)
            (responseText xhr) (JNum 400))"
    by (auto simp: fetch_def fetch_error_def new_ApiError_def)
next
  assume b: "js_get (responseJSON xhr) ''error'' = Inr err \<and> js_get err ''message'' = Inr msg
        \<and> msg \<noteq> JUndefined \<and> js_get err ''code'' = Inr cd"
  then have "responseJSON xhr \<noteq> JUndefined" "err \<noteq> JUndefined"
    by (auto simp: js_get_def)
  with b show "snd (fetch T s verb path body options (AjaxError xhr status error_thrown)) =
          Rejected (ApiError (js_ToString msg) (responseText xhr)
            (if js_truthy cd then cd else JNum 500))"
    by (simp add: fetch_def fetch_error_def new_ApiError_def)
qed

text \<open>
  C2, amended, on the spec's example body \<^verbatim>\<open>{error: {message: "Bad input", code: 422}}\<close>
  and on a timeout without any body.
\<close>

theorem fetch_error_rejects_witness:
  "snd (fetch stack_store [] ''get'' ''users'' JUndefined no_options
          (AjaxError envelope_xhr ''error'' (JStr ''Unprocessable Entity''))) =
     Rejected (ApiError ''Bad input'' (JStr ''Bad input, 422'') (JNum 422))
   \<and> snd (fetch stack_store [] ''get'' ''users'' JUndefined no_options
          (AjaxError timeout_xhr ''timeout'' (JStr ''timeout''))) =
     Rejected (ApiError ''timeout'' JUndefined (JNum 400))"
proof -
  have e: "js_get (responseJSON envelope_xhr) ''error'' = Inr envelope_error
      \<and> js_get envelope_error ''message'' = Inr (JStr ''Bad input'')
      \<and> JStr ''Bad input'' \<noteq> JUndefined
      \<and> js_get envelope_error ''code'' = Inr (JNum 422)"
    by (simp add: envelope_xhr_def envelope_error_def js_get_def)
  have t: "responseJSON timeout_xhr = JUndefined"
    by (simp add: timeout_xhr_def)
  show ?thesis
    using fetch_error_rejects [where xhr = envelope_xhr and err = envelope_error
        and msg = "JStr ''Bad input''" and cd = "JNum 422" and T = stack_store and s = "[]"
        and verb = "''get''" and path = "''users''" and body = JUndefined
        and options = no_options and status = "''error''"
        and error_thrown = "JStr ''Unprocessable Entity''"]
      fetch_error_rejects [where xhr = timeout_xhr and err = JUndefined
        and msg = JUndefined and cd = JUndefined and T = stack_store and s = "[]"
        and verb = "''get''" and path = "''users''" and body = JUndefined
        and options = no_options and status = "''timeout''"
        and error_thrown = "JStr ''timeout''"]
      e t
    by (simp add: js_truthy_def envelope_xhr_def timeout_xhr_def)
qed

section \<open>The Authorization header\<close>

text \<open>
  C3. Every request made by fetch and by FileUpload carries the Authorization header
  \<^verbatim>\<open>Bearer \<close> followed by the \<^verbatim>\<open>t\<close> value of the current token when the store has
  one, and \<^verbatim>\<open>Bearer null\<close> when it has none.
\<close>

theorem authorization_header:
  "(getTopToken T s = Some tk \<longrightarrow>
      ajax_Authorization (fst (fetch T s verb path body options reply)) = ''Bearer '' @ token_t tk
      \<and> xhr_Authorization (fst (FileUpload T s path fd xhr)) = ''Bearer '' @ token_t tk)
   \<and> (getTopToken T s = None \<longrightarrow>
      ajax_Authorization (fst (fetch T s verb path body options reply)) = ''Bearer null''
      \<and> xhr_Authorization (fst (FileUpload T s path fd xhr)) = ''Bearer null'')"
  by (simp add: fetch_def fetch_request_Authorization FileUpload_def FileUpload_request_def Let_def)

text \<open>C3 on a store that holds the token \<^verbatim>\<open>abc\<close> and on an empty store.\<close>

theorem authorization_header_witness:
  "ajax_Authorization (fst (fetch stack_store [\<lparr>token_t = ''abc''\<rparr>] ''get'' ''users'' JUndefined
      no_options (AjaxSuccess (JObj []) ''success'' plain_response))) = ''Bearer abc''
   \<and> xhr_Authorization (fst (FileUpload stack_store [\<lparr>token_t = ''abc''\<rparr>] ''users''
      certificate_form created_upload_xhr)) = ''Bearer abc''
   \<and> ajax_Authorization (fst (fetch stack_store [] ''get'' ''users'' JUndefined
      no_options (AjaxSuccess (JObj []) ''success'' plain_response))) = ''Bearer null''
   \<and> xhr_Authorization (fst (FileUpload stack_store [] ''users''
      certificate_form created_upload_xhr)) = ''Bearer null''"
proof -
  have a: "getTopToken stack_store [\<lparr>token_t = ''abc''\<rparr>] = Some \<lparr>token_t = ''abc''\<rparr>"
    by (simp add: stack_store_def)
  have b: "getTopToken stack_store [] = None"
    by (simp add: stack_store_def)
  show ?thesis
    using authorization_header [where T = stack_store and s = "[\<lparr>token_t = ''abc''\<rparr>]"
        and tk = "\<lparr>token_t = ''abc''\<rparr>" and verb = "''get''" and path = "''users''"
        and body = JUndefined and options = no_options
        and reply = "AjaxSuccess (JObj []) ''success'' plain_response"
        and fd = certificate_form and xhr = created_upload_xhr]
      authorization_header [where T = stack_store and s = "[]"
        and tk = "\<lparr>token_t = ''abc''\<rparr>" and verb = "''get''" and path = "''users''"
        and body = JUndefined and options = no_options
        and reply = "AjaxSuccess (JObj []) ''success'' plain_response"
        and fd = certificate_form and xhr = created_upload_xhr]
      a b
    by simp
qed

section \<open>Content negotiation and processData\<close>

text \<open>
  C4. The claim has a body pass through unmodified under the content type
  \<^verbatim>\<open>multipart/form-data\<close>. In the code, the \<^verbatim>\<open>data\<close> entry of the settings
  serialises every body whose \<^verbatim>\<open>typeof\<close> is \<^verbatim>\<open>object\<close> once more, whatever the
  content type (\<open>fetch_request_data\<close>): the form data that
  \<^verbatim>\<open>RedirectionHosts.setCerts\<close> uploads is transmitted as the text \<^verbatim>\<open>{}\<close>.
\<close>

theorem upload_body_is_serialized:
  "ajax_data (RedirectionHosts_setCerts stack_store [] (JNum 1) certificate_form) = JStr ''{}''
   \<and> ajax_contentType (RedirectionHosts_setCerts stack_store [] (JNum 1) certificate_form) =
       ''multipart/form-data''"
  by (simp add: RedirectionHosts_setCerts_def upload_def fetch_request_data certificate_form_def
      js_typeof_def JSON_stringify_def)
     (simp add: fetch_request_def Let_def)

text \<open>
  C5. The claim has \<^verbatim>\<open>processData: false\<close> honoured. In the code
  \<^verbatim>\<open>options.processData || true\<close> is true for every option value
  (\<open>fetch_request_processData\<close>): the upload wrapper, which passes false, issues its
  request with processData true.
\<close>

theorem upload_processData_is_true:
  "ajax_processData (DeadHosts_setCerts stack_store [] (JNum 1) certificate_form) = True
   \<and> ajax_processData (fetch_request stack_store [] ''post'' ''nginx/dead-hosts/1/certificates''
        certificate_form
        \<lparr>opt_contentType = Some ''multipart/form-data'', opt_processData = Some False,
         opt_timeout = None\<rparr>) = True"
  by (simp add: DeadHosts_setCerts_def upload_def fetch_request_processData)

section \<open>update\<close>



text \<open>
  C10. For every update of a resource group, the object that the caller passed is
  changed in place: after the call the object at the caller's address is the old one
  without the field \<^verbatim>\<open>id\<close>; its other fields and all other objects are as before.
\<close>

theorem update_mutates_argument:
  assumes "(base, upd) \<in> set resource_updates"
  shows "fst (upd T s h a) a = js_delete ''id'' (h a)
    \<and> map_of (fst (upd T s h a) a) ''id'' = None
    \<and> (\<forall>k. k \<noteq> ''id'' \<longrightarrow> map_of (fst (upd T s h a) a) k = map_of (h a) k)
    \<and> (\<forall>b. b \<noteq> a \<longrightarrow> fst (upd T s h a) b = h b)"
  using update_cases [OF assms, of T s h a]
  by (simp add: map_of_js_delete_same map_of_js_delete_other)

text \<open>
  C10 on the object \<^verbatim>\<open>{id: 5, name: "x"}\<close> passed to \<^verbatim>\<open>AccessLists.update\<close>: the
  caller's object is \<^verbatim>\<open>{name: "x"}\<close> afterwards.
\<close>

theorem update_mutates_argument_witness:
  "caller_heap 0 = [(''id'', JNum 5), (''name'', JStr ''x'')]
   \<and> fst (AccessLists_update stack_store [] caller_heap 0) 0 = [(''name'', JStr ''x'')]
   \<and> map_of (fst (AccessLists_update stack_store [] caller_heap 0) 0) ''id'' = None
   \<and> map_of (fst (AccessLists_update stack_store [] caller_heap 0) 0) ''name'' =
       map_of (caller_heap 0) ''name''
   \<and> fst (AccessLists_update stack_store [] caller_heap 0) 1 = caller_heap 1"
proof -
  have m: "(''access-lists/'', AccessLists_update :: token list token_store \<Rightarrow> _)
      \<in> set resource_updates"
    by (simp add: resource_updates_def)
  have d: "js_delete ''id'' (caller_heap 0) = [(''name'', JStr ''x'')]"
    by (simp add: caller_heap_def js_delete_def)
  show ?thesis
    using m d
      update_mutates_argument [where base = "''access-lists/''" and upd = AccessLists_update
        and T = stack_store and s = "[]" and h = caller_heap and a = 0]
    by (simp add: caller_heap_def)
qed

section \<open>login and refresh\<close>

text \<open>
  C7 as stated fails on a response that contains a token field whose value is falsy:
  on \<^verbatim>\<open>{token: ""}\<close>, login without wipe clears the token store and rejects with
  \<^verbatim>\<open>No token returned\<close>, where the claim has the token added and the promise
  resolved.
\<close>

theorem login_empty_token_counterexample:
  "js_get (JObj [(''token'', JStr [])]) ''token'' = Inr (JStr [])
   \<and> snd (login stack_store [\<lparr>token_t = ''old''\<rparr>] ''admin'' ''secret'' False
        (Resolved (JObj [(''token'', JStr [])])) [\<lparr>token_t = ''old''\<rparr>]) =
       ([], Rejected (Error ''No token returned''))"
  by (simp add: login_def login_then_def js_get_def js_truthy_def stack_store_def)

text \<open>
  A response that is \<^verbatim>\<open>null\<close>: reading \<^verbatim>\<open>response.token\<close> throws, the promise of
  login rejects with the TypeError, and the token store is left as it was.
\<close>

lemma login_null_response:
  "snd (login stack_store [\<lparr>token_t = ''old''\<rparr>] ''admin'' ''secret'' True
        (Resolved JNull) [\<lparr>token_t = ''old''\<rparr>]) =
     ([\<lparr>token_t = ''old''\<rparr>], Rejected TypeError)"
  by (simp add: login_def login_then_def js_get_def)

text \<open>
  C7, amended. For a response whose property \<^verbatim>\<open>token\<close> can be read (any value but
  \<^verbatim>\<open>null\<close> and \<^verbatim>\<open>undefined\<close>): if \<^verbatim>\<open>response.token\<close> is truthy, login clears the
  stored tokens first when wipe is true, then adds the token and resolves with it, and
  refresh overwrites the current token with it and resolves with it; if
  \<^verbatim>\<open>response.token\<close> is absent or falsy, login and refresh clear all stored tokens
  and reject with the error \<^verbatim>\<open>No token returned\<close>.
\<close>

theorem login_refresh_tokens:
  "(js_get response ''token'' = Inr tk \<and> js_truthy tk \<longrightarrow>
      snd (login T s identity secret wipe (Resolved response) s') =
        (addToken T tk (if wipe then clearTokens T s' else s'), Resolved tk)
      \<and> snd (refresh T s (Resolved response) s') = (setCurrentToken T tk s', Resolved tk))
   \<and> (js_get response ''token'' = Inr tk \<and> \<not> js_truthy tk \<longrightarrow>
      snd (login T s identity secret wipe (Resolved response) s') =
        (clearTokens T s', Rejected (Error ''No token returned''))
      \<and> snd (refresh T s (Resolved response) s') =
        (clearTokens T s', Rejected (Error ''No token returned'')))"
  by (simp add: login_def login_then_def refresh_def refresh_then_def Let_def)

text \<open>
  C7, amended, on the responses \<^verbatim>\<open>{token: "new"}\<close> and \<^verbatim>\<open>{}\<close> with a store that
  holds one old token, login called with wipe.
\<close>

theorem login_refresh_tokens_witness:
  "snd (login stack_store [\<lparr>token_t = ''old''\<rparr>] ''admin'' ''secret'' True
      (Resolved (JObj [(''token'', JStr ''new'')])) [\<lparr>token_t = ''old''\<rparr>]) =
     ([\<lparr>token_t = ''new''\<rparr>], Resolved (JStr ''new''))
   \<and> snd (refresh stack_store [\<lparr>token_t = ''old''\<rparr>]
      (Resolved (JObj [(''token'', JStr ''new'')])) [\<lparr>token_t = ''old''\<rparr>]) =
     ([\<lparr>token_t = ''new''\<rparr>], Resolved (JStr ''new''))
   \<and> snd (login stack_store [\<lparr>token_t = ''old''\<rparr>] ''admin'' ''secret'' True
      (Resolved (JObj [])) [\<lparr>token_t = ''old''\<rparr>]) =
     ([], Rejected (Error ''No token returned''))
   \<and> snd (refresh stack_store [\<lparr>token_t = ''old''\<rparr>]
      (Resolved (JObj [])) [\<lparr>token_t = ''old''\<rparr>]) =
     ([], Rejected (Error ''No token returned''))"
proof -
  have a: "js_get (JObj [(''token'', JStr ''new'')]) ''token'' = Inr (JStr ''new'')
      \<and> js_truthy (JStr ''new'')"
    by (simp add: js_get_def js_truthy_def)
  have b: "js_get (JObj []) ''token'' = Inr JUndefined \<and> \<not> js_truthy JUndefined"
    by (simp add: js_get_def js_truthy_def)
  show ?thesis
    using login_refresh_tokens [where response = "JObj [(''token'', JStr ''new'')]"
        and tk = "JStr ''new''" and T = stack_store and s = "[\<lparr>token_t = ''old''\<rparr>]"
        and s' = "[\<lparr>token_t = ''old''\<rparr>]" and identity = "''admin''"
        and secret = "''secret''" and wipe = True]
      login_refresh_tokens [where response = "JObj []"
        and tk = JUndefined and T = stack_store and s = "[\<lparr>token_t = ''old''\<rparr>]"
        and s' = "[\<lparr>token_t = ''old''\<rparr>]" and identity = "''admin''"
        and secret = "''secret''" and wipe = True]
      a b
    by (simp add: stack_store_def)
qed

section \<open>getAll\<close>

text \<open>
  C8. For every getAll of a resource group, called with a non-empty expand list and a
  string query: the request is a GET whose path is the path of the group followed by
  \<^verbatim>\<open>?expand=\<close>, the expand items each percent-encoded and joined with commas,
  \<^verbatim>\<open>&query=\<close> and the query string as it is. For the spec's example,
  \<^verbatim>\<open>getAll(["owner","certificate"], "foo=bar")\<close>, the query string is
  \<^verbatim>\<open>expand=owner,certificate&query=foo=bar\<close>, which a server reads as the same
  parameters as \<^verbatim>\<open>expand=owner%2Ccertificate&query=foo%3Dbar\<close>.
\<close>

theorem getAll_query_string:
  "((base, getAll) \<in> set resource_getAlls \<and> xs \<noteq> [] \<longrightarrow>
      ajax_type (getAll T s (Some xs) (JStr q)) = ''get''
      \<and> ajax_url (getAll T s (Some xs) (JStr q)) =
          ''/api/'' @ base @ ''?expand='' @ join '','' (map encodeURIComponent xs)
            @ ''&query='' @ q)
   \<and> ajax_url (Users_getAll T s (Some [JStr ''owner'', JStr ''certificate'']) (JStr ''foo=bar'')) =
       ''/api/users?'' @ ''expand=owner,certificate&query=foo=bar''
   \<and> spec_query_params ''expand=owner,certificate&query=foo=bar'' =
       spec_query_params ''expand=owner%2Ccertificate&query=foo%3Dbar''"
proof (intro conjI impI)
  assume a: "(base, getAll) \<in> set resource_getAlls \<and> xs \<noteq> []"
  then have g: "getAll T s (Some xs) (JStr q) = getAllObjects T s base (Some xs) (JStr q)"
    using getAll_cases [of base getAll T s "Some xs" "JStr q"] by simp
  show "ajax_type (getAll T s (Some xs) (JStr q)) = ''get''"
    using a by (simp add: g getAllObjects_def fetch_request_type)
  show "ajax_url (getAll T s (Some xs) (JStr q)) =
          ''/api/'' @ base @ ''?expand='' @ join '','' (map encodeURIComponent xs)
            @ ''&query='' @ q"
    using a by (simp add: g getAllObjects_def fetch_request_url makeExpansionString_def)
next
  have e: "encodeURIComponent (JStr ''owner'') = ''owner''"
    "encodeURIComponent (JStr ''certificate'') = ''certificate''"
    by code_simp+
  show "ajax_url (Users_getAll T s (Some [JStr ''owner'', JStr ''certificate'']) (JStr ''foo=bar'')) =
       ''/api/users?'' @ ''expand=owner,certificate&query=foo=bar''"
    by (simp add: Users_getAll_def getAllObjects_def fetch_request_url makeExpansionString_def e)
next
  have l: "spec_query_params ''expand=owner,certificate&query=foo=bar'' =
      [(''expand'', ''owner,certificate''), (''query'', ''foo=bar'')]"
    by (simp add: spec_query_params_def spec_query_param_def)
  have r: "spec_query_params ''expand=owner%2Ccertificate&query=foo%3Dbar'' =
      [(''expand'', ''owner,certificate''), (''query'', ''foo=bar'')]"
    by code_simp
  show "spec_query_params ''expand=owner,certificate&query=foo=bar'' =
       spec_query_params ''expand=owner%2Ccertificate&query=foo%3Dbar''"
    by (simp only: l r)
qed

text \<open>C8 on \<^verbatim>\<open>ProxyHosts.getAll(["owner","access list"], "foo=bar")\<close>.\<close>

theorem getAll_query_string_witness:
  "ajax_url (ProxyHosts_getAll stack_store [] (Some [JStr ''owner'', JStr ''access list''])
        (JStr ''foo=bar'')) =
       ''/api/nginx/proxy-hosts?expand=owner,access%20list&query=foo=bar''"
proof -
  have m: "(''nginx/proxy-hosts'', ProxyHosts_getAll :: token list token_store \<Rightarrow> _)
      \<in> set resource_getAlls"
    by (simp add: resource_getAlls_def)
  have e: "encodeURIComponent (JStr ''owner'') = ''owner''"
    "encodeURIComponent (JStr ''access list'') = ''access%20list''"
    by code_simp+
  show ?thesis
    using m e
      getAll_query_string [where base = "''nginx/proxy-hosts''" and getAll = ProxyHosts_getAll
        and xs = "[JStr ''owner'', JStr ''access list'']" and q = "''foo=bar''"
        and T = stack_store and s = "[]"]
    by simp
qed

section \<open>FileUpload\<close>

text \<open>
  C9. When the request of FileUpload is done: with a status other than 200 and 201
  the promise rejects with the error \<^verbatim>\<open>Upload failed: \<close> followed by the status;
  with status 200 or 201 it resolves with the response text. The body sent is the
  form data as it was passed, the outcome does not depend on any response header, and
  \<^verbatim>\<open>Nginx.ProxyHosts.setCerts\<close> is this operation on the certificates path.
\<close>

theorem FileUpload_settles:
  "(xhr_readyState xhr = XMLHttpRequest_DONE \<and> xhr_status xhr \<noteq> 200 \<and> xhr_status xhr \<noteq> 201 \<longrightarrow>
      snd (FileUpload T s path fd xhr) =
        Rejected (Error (''Upload failed: '' @ show_nat (xhr_status xhr))))
   \<and> (xhr_readyState xhr = XMLHttpRequest_DONE \<and> (xhr_status xhr = 200 \<or> xhr_status xhr = 201) \<longrightarrow>
      snd (FileUpload T s path fd xhr) = Resolved (xhr_responseText xhr))
   \<and> xhr_body (fst (FileUpload T s path fd xhr)) = fd
   \<and> snd (FileUpload T s path fd (xhr\<lparr>xhr_getResponseHeader := g\<rparr>)) =
       snd (FileUpload T s path fd xhr)
   \<and> ProxyHosts_setCerts T s ident fd xhr =
       FileUpload T s (''nginx/proxy-hosts/'' @ js_ToString ident @ ''/certificates'') fd xhr"
  by (auto simp: FileUpload_def FileUpload_onreadystatechange_def FileUpload_request_def
      ProxyHosts_setCerts_def Let_def)

text \<open>C9 on an upload answered with status 500 and on one answered with status 201.\<close>

theorem FileUpload_settles_witness:
  "snd (ProxyHosts_setCerts stack_store [] (JNum 7) certificate_form failed_upload_xhr) =
     Rejected (Error ''Upload failed: 500'')
   \<and> snd (ProxyHosts_setCerts stack_store [] (JNum 7) certificate_form created_upload_xhr) =
     Resolved ''true''
   \<and> xhr_body (fst (ProxyHosts_setCerts stack_store [] (JNum 7) certificate_form
       created_upload_xhr)) = certificate_form"
proof -
  have f: "xhr_readyState failed_upload_xhr = XMLHttpRequest_DONE
      \<and> xhr_status failed_upload_xhr \<noteq> 200 \<and> xhr_status failed_upload_xhr \<noteq> 201"
    by (simp add: failed_upload_xhr_def XMLHttpRequest_DONE_def)
  have c: "xhr_readyState created_upload_xhr = XMLHttpRequest_DONE
      \<and> (xhr_status created_upload_xhr = 200 \<or> xhr_status created_upload_xhr = 201)"
    by (simp add: created_upload_xhr_def XMLHttpRequest_DONE_def)
  have n: "show_nat 500 = ''500''"
    by (simp add: show_nat.simps digit_char_def)
  show ?thesis
    using FileUpload_settles [where xhr = failed_upload_xhr and T = stack_store and s = "[]"
        and path = "''nginx/proxy-hosts/'' @ js_ToString (JNum 7) @ ''/certificates''"
        and fd = certificate_form and ident = "JNum 7"]
      FileUpload_settles [where xhr = created_upload_xhr and T = stack_store and s = "[]"
        and path = "''nginx/proxy-hosts/'' @ js_ToString (JNum 7) @ ''/certificates''"
        and fd = certificate_form and ident = "JNum 7"]
      f c n
    by (simp add: failed_upload_xhr_def created_upload_xhr_def)
qed

end
